theory Spec2Isabelle
  imports Complex_Main "HOL-Library.Word"
begin

unbundle bit_operations_syntax

section \<open>BreakpointMap (src/debugger/BreakpointMap.hxx, BreakpointMap.cxx)\<close>

text \<open>
  \<^verbatim>\<open>static const uInt16 ADDRESS_MASK = 0x1fff;\<close> and
  \<^verbatim>\<open>static const uInt32 ONE_SHOT = 1 << 0;\<close>
\<close>

definition ADDRESS_MASK :: "16 word" where
  "ADDRESS_MASK = 0x1fff"

definition ONE_SHOT :: "32 word" where
  "ONE_SHOT = push_bit (0::nat) 1"

text \<open>\<^verbatim>\<open>struct Breakpoint { uInt16 addr; uInt8 bank; ... }\<close>\<close>

record Breakpoint =
  addr :: "16 word"
  bank :: "8 word"

text \<open>The constructor \<^verbatim>\<open>Breakpoint(uInt16 c_addr, uInt8 c_bank)\<close>: both fields stored unmasked.\<close>

definition mkBreakpoint :: "16 word \<Rightarrow> 8 word \<Rightarrow> Breakpoint" where
  "mkBreakpoint c_addr c_bank = \<lparr>addr = c_addr, bank = c_bank\<rparr>"

text \<open>
  \<^verbatim>\<open>Breakpoint::operator==\<close>:
  \<^verbatim>\<open>(addr & ADDRESS_MASK) == (other.addr & ADDRESS_MASK) && bank == other.bank\<close>.
\<close>

definition bp_eq :: "Breakpoint \<Rightarrow> Breakpoint \<Rightarrow> bool" where
  "bp_eq a other \<longleftrightarrow>
     (addr a AND ADDRESS_MASK) = (addr other AND ADDRESS_MASK) \<and> bank a = bank other"

text \<open>
  \<^verbatim>\<open>BreakpointHash::operator()\<close>:
  \<^verbatim>\<open>std::hash<uInt64>()(uInt64(bp.addr & ADDRESS_MASK) * 13 + uInt64(bp.bank))\<close>.
  The library's \<^verbatim>\<open>std::hash<uInt64>\<close> is the parameter \<open>h\<close>; the arithmetic is on
  64-bit unsigned words.
\<close>

definition hash_arg :: "Breakpoint \<Rightarrow> 64 word" where
  "hash_arg bp = ucast (addr bp AND ADDRESS_MASK) * 13 + ucast (bank bp)"

definition BreakpointHash :: "(64 word \<Rightarrow> 'h) \<Rightarrow> Breakpoint \<Rightarrow> 'h" where
  "BreakpointHash h bp = h (hash_arg bp)"

text \<open>
  \<^verbatim>\<open>std::unordered_map<Breakpoint, uInt32, BreakpointHash> myMap\<close> with the key
  equality \<^verbatim>\<open>operator==\<close>. The container holds at most one element per class of
  equivalent keys; it is modelled by the list of its elements, searched with
  \<open>bp_eq\<close>. (The iteration order of the container is unspecified; the list's order
  carries no meaning.)
\<close>

type_synonym bp_entries = "(Breakpoint \<times> 32 word) list"

text \<open>\<^verbatim>\<open>myMap.find(breakpoint)\<close>: the element whose key is equivalent, or \<^verbatim>\<open>end()\<close>.\<close>

fun map_find :: "bp_entries \<Rightarrow> Breakpoint \<Rightarrow> (Breakpoint \<times> 32 word) option" where
  "map_find [] k = None"
| "map_find ((k', v) # es) k = (if bp_eq k' k then Some (k', v) else map_find es k)"

text \<open>
  \<^verbatim>\<open>myMap[breakpoint] = flags\<close>: the value of the element with an equivalent key is
  overwritten (its stored key stays); without such an element a new one is inserted.
\<close>

fun map_assign :: "bp_entries \<Rightarrow> Breakpoint \<Rightarrow> 32 word \<Rightarrow> bp_entries" where
  "map_assign [] k flags = [(k, flags)]"
| "map_assign ((k', v) # es) k flags =
     (if bp_eq k' k then (k', flags) # es else (k', v) # map_assign es k flags)"

text \<open>\<^verbatim>\<open>myMap.erase(breakpoint)\<close>: removes the element with an equivalent key, if any.\<close>

fun map_erase :: "bp_entries \<Rightarrow> Breakpoint \<Rightarrow> bp_entries" where
  "map_erase [] k = []"
| "map_erase ((k', v) # es) k =
     (if bp_eq k' k then map_erase es k else (k', v) # map_erase es k)"

text \<open>The invariant of the container: no two elements have equivalent keys.\<close>

fun unique_keys :: "bp_entries \<Rightarrow> bool" where
  "unique_keys [] = True"
| "unique_keys ((k, v) # es) = (map_find es k = None \<and> unique_keys es)"

record BreakpointMap =
  myMap :: bp_entries
  myInitialized :: bool

text \<open>\<^verbatim>\<open>BreakpointMap::BreakpointMap() : myInitialized(false)\<close>\<close>

definition BreakpointMap_new :: BreakpointMap where
  "BreakpointMap_new = \<lparr>myMap = [], myInitialized = False\<rparr>"

definition isInitialized :: "BreakpointMap \<Rightarrow> bool" where
  "isInitialized m = myInitialized m"

text \<open>\<^verbatim>\<open>add(const Breakpoint&, flags)\<close>: \<^verbatim>\<open>myInitialized = true; myMap[breakpoint] = flags;\<close>\<close>

definition add :: "BreakpointMap \<Rightarrow> Breakpoint \<Rightarrow> 32 word \<Rightarrow> BreakpointMap" where
  "add m breakpoint flags =
     m\<lparr>myInitialized := True, myMap := map_assign (myMap m) breakpoint flags\<rparr>"

definition add_addr :: "BreakpointMap \<Rightarrow> 16 word \<Rightarrow> 8 word \<Rightarrow> 32 word \<Rightarrow> BreakpointMap" where
  "add_addr m a b flags = add m (mkBreakpoint a b) flags"

definition erase :: "BreakpointMap \<Rightarrow> Breakpoint \<Rightarrow> BreakpointMap" where
  "erase m breakpoint = m\<lparr>myMap := map_erase (myMap m) breakpoint\<rparr>"

definition erase_addr :: "BreakpointMap \<Rightarrow> 16 word \<Rightarrow> 8 word \<Rightarrow> BreakpointMap" where
  "erase_addr m a b = erase m (mkBreakpoint a b)"

text \<open>\<^verbatim>\<open>get\<close>: the stored flags, or 0 when \<^verbatim>\<open>find\<close> returns \<^verbatim>\<open>end()\<close>.\<close>

definition get :: "BreakpointMap \<Rightarrow> Breakpoint \<Rightarrow> 32 word" where
  "get m breakpoint =
     (case map_find (myMap m) breakpoint of Some (k, flags) \<Rightarrow> flags | None \<Rightarrow> 0)"

definition get_addr :: "BreakpointMap \<Rightarrow> 16 word \<Rightarrow> 8 word \<Rightarrow> 32 word" where
  "get_addr m a b = get m (mkBreakpoint a b)"

definition check :: "BreakpointMap \<Rightarrow> Breakpoint \<Rightarrow> bool" where
  "check m breakpoint = (map_find (myMap m) breakpoint \<noteq> None)"

definition check_addr :: "BreakpointMap \<Rightarrow> 16 word \<Rightarrow> 8 word \<Rightarrow> bool" where
  "check_addr m a b = check m (mkBreakpoint a b)"

definition getBreakpoints :: "BreakpointMap \<Rightarrow> Breakpoint list" where
  "getBreakpoints m = map fst (myMap m)"

text \<open>\<^verbatim>\<open>void clear() { myMap.clear(); }\<close> and \<^verbatim>\<open>size_t size() { return myMap.size(); }\<close>\<close>

definition clear :: "BreakpointMap \<Rightarrow> BreakpointMap" where
  "clear m = m\<lparr>myMap := []\<rparr>"

definition size_bp :: "BreakpointMap \<Rightarrow> nat" where
  "size_bp m = length (myMap m)"

text \<open>The mutating operations of the class, to speak about every later history of a map.\<close>

datatype bp_op = Add Breakpoint "32 word" | Erase Breakpoint | Clear

fun apply_bp_op :: "BreakpointMap \<Rightarrow> bp_op \<Rightarrow> BreakpointMap" where
  "apply_bp_op m (Add bp flags) = add m bp flags"
| "apply_bp_op m (Erase bp) = erase m bp"
| "apply_bp_op m Clear = clear m"

fun apply_bp_ops :: "BreakpointMap \<Rightarrow> bp_op list \<Rightarrow> BreakpointMap" where
  "apply_bp_ops m [] = m"
| "apply_bp_ops m (x # xs) = apply_bp_ops (apply_bp_op m x) xs"


section \<open>StateManager (src/common/StateManager.cxx)\<close>

text \<open>\<^verbatim>\<open>#define STATE_HEADER "05099100state"\<close>\<close>

definition STATE_HEADER :: string where
  "STATE_HEADER = ''05099100state''"

text \<open>
  \<^verbatim>\<open>buf << slot\<close> on an \<^verbatim>\<open>ostringstream\<close>: the decimal digits of an \<^verbatim>\<open>int\<close>, with a
  leading minus sign for a negative value.
\<close>

fun dec_digits :: "nat \<Rightarrow> string" where
  "dec_digits n =
     (if n < 10 then [''0123456789'' ! n]
      else dec_digits (n div 10) @ [''0123456789'' ! (n mod 10)])"

declare dec_digits.simps [simp del]

definition show_int :: "int \<Rightarrow> string" where
  "show_int i = (if i < 0 then CHR ''-'' # dec_digits (nat (- i)) else dec_digits (nat i))"

text \<open>The remainder \<^verbatim>\<open>a % b\<close> of C++ on \<^verbatim>\<open>int\<close>: the quotient is truncated towards zero.\<close>

definition c_rem :: "int \<Rightarrow> int \<Rightarrow> int" where
  "c_rem a b = sgn a * (\<bar>a\<bar> mod \<bar>b\<bar>)"

text \<open>
  \<^verbatim>\<open>StateManager::Mode\<close>. The live code names \<^verbatim>\<open>Mode::Off\<close> and \<^verbatim>\<open>Mode::TimeMachine\<close>;
  \<^verbatim>\<open>Mode::MovieRecord\<close> and \<^verbatim>\<open>Mode::MoviePlayback\<close> are named by the disabled
  (\<^verbatim>\<open>#if 0\<close>) cases of \<^verbatim>\<open>update()\<close> and fall under its \<^verbatim>\<open>default:\<close> label.
\<close>

datatype Mode = Off | TimeMachine | MovieRecord | MoviePlayback

text \<open>
  \<^verbatim>\<open>EventHandlerState\<close>, with the enumerators that OSystem.cxx names.
\<close>

datatype EventHandlerState =
  EMULATION | PAUSE | OPTIONSMENU | CMDMENU | TIMEMACHINE | PLAYBACK | LAUNCHER | DEBUGGER | NONE

text \<open>
  What the code reads from \<^verbatim>\<open>EmulationTiming\<close> (unsigned 32-bit getters).
\<close>

record EmulationTiming =
  cyclesPerSecond :: "32 word"
  cyclesPerFrame :: "32 word"
  maxCyclesPerTimeslice :: "32 word"
  minCyclesPerTimeslice :: "32 word"

text \<open>
  The console as the modelled functions see it: the two names that \<^verbatim>\<open>loadState\<close> and
  \<^verbatim>\<open>saveState\<close> read (\<^verbatim>\<open>properties().get(Cartridge_Name)\<close> for the file name,
  \<^verbatim>\<open>cartridge().name()\<close> for the check), the timing and the TIA getters that the
  scheduler reads, and \<open>machine\<close>: the whole emulated state that \<^verbatim>\<open>Console::load\<close>
  writes and \<^verbatim>\<open>Console::save\<close> reads, of an arbitrary type.
\<close>

record 'm Console =
  properties_Cartridge_Name :: string
  cartridge_name :: string
  emulationTiming :: EmulationTiming
  tia_newFramePending :: bool
  tia_scanlinesLastFrame :: "32 word"
  machine :: 'm

record 'm OSystem =
  myConsole :: "'m Console option"
  eventHandler_state :: EventHandlerState
  stateDir :: string
  settings_autoslot :: bool
  settings_dev_settings :: bool
  settings_dev_timemachine :: bool
  settings_plr_timemachine :: bool

text \<open>
  \<^verbatim>\<open>OSystem::hasConsole\<close>:
  \<^verbatim>\<open>myConsole != nullptr && myEventHandler->state() != EventHandlerState::LAUNCHER\<close>.
\<close>

definition hasConsole :: "'m OSystem \<Rightarrow> bool" where
  "hasConsole os \<longleftrightarrow> myConsole os \<noteq> None \<and> eventHandler_state os \<noteq> LAUNCHER"

text \<open>
  The calls that StateManager issues on its collaborators (frame buffer, serializer,
  console, rewind manager, settings), recorded in program order.
\<close>

datatype sm_call =
    ShowMessage string
  | OpenRead string
  | OpenWrite string
  | PutString string
  | ConsoleLoad
  | ConsoleSave
  | AddState string bool
  | RewindClear
  | SetValue string bool

record 'm StateManager =
  myOSystem :: "'m OSystem"
  myCurrentSlot :: int
  myActiveMode :: Mode
  calls :: "sm_call list"

fun is_addState :: "sm_call \<Rightarrow> bool" where
  "is_addState (AddState label cont) = True"
| "is_addState _ = False"

definition emit :: "sm_call \<Rightarrow> 'm StateManager \<Rightarrow> 'm StateManager" where
  "emit e sm = sm\<lparr>calls := calls sm @ [e]\<rparr>"

text \<open>
  \<^verbatim>\<open>StateManager::reset\<close>: clears the rewind manager and reads the mode from the settings.
\<close>

definition reset :: "'m StateManager \<Rightarrow> 'm StateManager" where
  "reset sm =
     (let os = myOSystem sm;
          tm = (if settings_dev_settings os then settings_dev_timemachine os
                else settings_plr_timemachine os)
      in (emit RewindClear sm)\<lparr>myActiveMode := (if tm then TimeMachine else Off)\<rparr>)"

text \<open>The constructor: \<^verbatim>\<open>myCurrentSlot(0), myActiveMode(Mode::Off)\<close>, then \<^verbatim>\<open>reset()\<close>.\<close>

definition StateManager_new :: "'m OSystem \<Rightarrow> 'm StateManager" where
  "StateManager_new os =
     reset \<lparr>myOSystem = os, myCurrentSlot = 0, myActiveMode = Off, calls = []\<rparr>"

definition toggleTimeMachine :: "'m StateManager \<Rightarrow> 'm StateManager" where
  "toggleTimeMachine sm =
     (let os = myOSystem sm;
          devSettings = settings_dev_settings os;
          mode = (if myActiveMode sm = TimeMachine then Off else TimeMachine);
          sm1 = emit (ShowMessage (if mode = TimeMachine then ''Time Machine enabled''
                                   else ''Time Machine disabled'')) (sm\<lparr>myActiveMode := mode\<rparr>);
          os' = (if devSettings then os\<lparr>settings_dev_timemachine := (mode = TimeMachine)\<rparr>
                 else os\<lparr>settings_plr_timemachine := (mode = TimeMachine)\<rparr>)
      in (emit (SetValue (if devSettings then ''dev.timemachine'' else ''plr.timemachine'')
                  (mode = TimeMachine)) sm1)\<lparr>myOSystem := os'\<rparr>)"

text \<open>
  \<^verbatim>\<open>StateManager::update\<close>: in mode TimeMachine one call
  \<^verbatim>\<open>myRewindManager->addState("Time Machine", true)\<close>; every other mode reaches
  \<^verbatim>\<open>default: break;\<close>.
\<close>

definition update :: "'m StateManager \<Rightarrow> 'm StateManager" where
  "update sm =
     (case myActiveMode sm of
        TimeMachine \<Rightarrow> emit (AddState ''Time Machine'' True) sm
      | _ \<Rightarrow> sm)"

text \<open>\<^verbatim>\<open>if(slot < 0) slot = myCurrentSlot;\<close>\<close>

definition used_slot :: "'m StateManager \<Rightarrow> int \<Rightarrow> int" where
  "used_slot sm slot = (if slot < 0 then myCurrentSlot sm else slot)"

text \<open>
  The file name:
  \<^verbatim>\<open>buf << stateDir() << console().properties().get(Cartridge_Name) << ".st" << slot\<close>.
\<close>

definition state_file :: "'m OSystem \<Rightarrow> 'm Console \<Rightarrow> int \<Rightarrow> string" where
  "state_file os c slot = stateDir os @ properties_Cartridge_Name c @ ''.st'' @ show_int slot"

text \<open>
  A \<^verbatim>\<open>Serializer\<close> opened for reading is the sequence of strings that its successive
  \<^verbatim>\<open>getString()\<close> calls return; a read at the end of the stream throws (\<open>None\<close>).
\<close>

fun getString :: "string list \<Rightarrow> (string \<times> string list) option" where
  "getString [] = None"
| "getString (s # rest) = Some (s, rest)"

text \<open>
  \<^verbatim>\<open>Console::load(Serializer&)\<close> is not among the sources: it is the parameter \<open>cload\<close>
  of \<open>loadState\<close>, from the rest of the stream and the machine to one of these outcomes.
  Each outcome carries the machine as the call left it.
\<close>

datatype 'm load_outcome = LoadReturns bool 'm | LoadThrows 'm

text \<open>
  The \<^verbatim>\<open>try\<close> block of \<^verbatim>\<open>loadState(int)\<close>: whether \<^verbatim>\<open>Console::load\<close> was called, the
  message left in \<^verbatim>\<open>buf\<close>, and the machine afterwards. Every exception
  (\<^verbatim>\<open>catch(...)\<close>) ends in the message "Invalid data in state N file".
\<close>

definition load_try ::
  "(string list \<Rightarrow> 'm \<Rightarrow> 'm load_outcome) \<Rightarrow> string list \<Rightarrow> 'm Console \<Rightarrow> int
     \<Rightarrow> bool \<times> string \<times> 'm" where
  "load_try cload ins c slot =
     (case getString ins of
        None \<Rightarrow> (False, ''Invalid data in state '' @ show_int slot @ '' file'', machine c)
      | Some (hdr, in1) \<Rightarrow>
          if hdr \<noteq> STATE_HEADER
          then (False, ''Incompatible state '' @ show_int slot @ '' file'', machine c)
          else (case getString in1 of
                  None \<Rightarrow> (False, ''Invalid data in state '' @ show_int slot @ '' file'', machine c)
                | Some (nm, in2) \<Rightarrow>
                    if nm \<noteq> cartridge_name c
                    then (False, ''State '' @ show_int slot @ '' file doesn't match current ROM'',
                          machine c)
                    else (case cload in2 (machine c) of
                            LoadReturns res m' \<Rightarrow>
                              if res then (True, ''State '' @ show_int slot @ '' loaded'', m')
                              else (True, ''Invalid data in state '' @ show_int slot @ '' file'', m')
                          | LoadThrows m' \<Rightarrow>
                              (True, ''Invalid data in state '' @ show_int slot @ '' file'', m'))))"

definition set_machine :: "'m Console \<Rightarrow> 'm \<Rightarrow> 'm StateManager \<Rightarrow> 'm StateManager" where
  "set_machine c m' sm = sm\<lparr>myOSystem := (myOSystem sm)\<lparr>myConsole := Some (c\<lparr>machine := m'\<rparr>)\<rparr>\<rparr>"

text \<open>
  \<^verbatim>\<open>StateManager::loadState(int slot)\<close>. \<open>open_in path\<close> is what opening \<open>path\<close>
  read-only gives: \<open>None\<close> when \<^verbatim>\<open>!in\<close>, else the stream. Under \<open>hasConsole\<close> the
  console pointer is not null, so the \<open>None\<close> case of the inner match is never taken.
\<close>

definition loadState ::
  "(string list \<Rightarrow> 'm \<Rightarrow> 'm load_outcome) \<Rightarrow> (string \<Rightarrow> string list option)
     \<Rightarrow> 'm StateManager \<Rightarrow> int \<Rightarrow> 'm StateManager" where
  "loadState cload open_in sm slot0 =
     (if hasConsole (myOSystem sm) then
        (case myConsole (myOSystem sm) of
           None \<Rightarrow> sm
         | Some c \<Rightarrow>
             let slot = used_slot sm slot0;
                 path = state_file (myOSystem sm) c slot;
                 sm1 = emit (OpenRead path) sm
             in (case open_in path of
                   None \<Rightarrow>
                     emit (ShowMessage (''Can't open/load from state file '' @ show_int slot)) sm1
                 | Some ins \<Rightarrow>
                     (case load_try cload ins c slot of
                        (called, msg, m') \<Rightarrow>
                          emit (ShowMessage msg)
                            (if called then emit ConsoleLoad (set_machine c m' sm1) else sm1))))
      else sm)"

text \<open>
  How a call can end: it returns, or an exception leaves it.
\<close>

datatype ending = Returned | Propagated

text \<open>
  What the environment answers during \<^verbatim>\<open>saveState(int)\<close>: whether \<^verbatim>\<open>Serializer out(path)\<close>
  is valid, and whether each of the two \<^verbatim>\<open>putString\<close> calls throws.
  \<^verbatim>\<open>Console::save(Serializer&)\<close> is not among the sources: it is the parameter \<open>csave\<close>,
  \<open>Some b\<close> when it returns \<open>b\<close> and \<open>None\<close> when it throws.
\<close>

record save_io =
  open_out :: "string \<Rightarrow> bool"
  put_header_throws :: bool
  put_name_throws :: bool

text \<open>
  \<^verbatim>\<open>StateManager::saveState(int slot)\<close>. In the \<^verbatim>\<open>catch(...)\<close> of the header writes,
  \<^verbatim>\<open>buf\<close> still holds the file name, so the message starts with it. The call of
  \<^verbatim>\<open>console().save(out)\<close> is outside every \<^verbatim>\<open>try\<close>. \<^verbatim>\<open>slot + 1\<close> is computed on
  \<open>int\<close> without wrap-around (it overflows only for \<^verbatim>\<open>INT_MAX\<close>, which C++ leaves
  undefined).
\<close>

definition saveState ::
  "('m \<Rightarrow> bool option) \<Rightarrow> save_io \<Rightarrow> 'm StateManager \<Rightarrow> int \<Rightarrow> ending \<times> 'm StateManager" where
  "saveState csave io sm slot0 =
     (if hasConsole (myOSystem sm) then
        (case myConsole (myOSystem sm) of
           None \<Rightarrow> (Returned, sm)
         | Some c \<Rightarrow>
             let slot = used_slot sm slot0;
                 path = state_file (myOSystem sm) c slot;
                 sm1 = emit (OpenWrite path) sm
             in if \<not> open_out io path then
                  (Returned,
                   emit (ShowMessage (''Can't open/save to state file '' @ show_int slot)) sm1)
                else if put_header_throws io then
                  (Returned,
                   emit (ShowMessage (path @ ''Error saving state '' @ show_int slot))
                     (emit (PutString STATE_HEADER) sm1))
                else if put_name_throws io then
                  (Returned,
                   emit (ShowMessage (path @ ''Error saving state '' @ show_int slot))
                     (emit (PutString (cartridge_name c)) (emit (PutString STATE_HEADER) sm1)))
                else
                  (let sm2 = emit ConsoleSave
                               (emit (PutString (cartridge_name c))
                                  (emit (PutString STATE_HEADER) sm1))
                   in (case csave (machine c) of
                         None \<Rightarrow> (Propagated, sm2)
                       | Some saved \<Rightarrow>
                           if saved then
                             (if settings_autoslot (myOSystem sm) then
                                (Returned,
                                 emit (ShowMessage (''State '' @ show_int slot @ '' saved''
                                                      @ '', switching to slot '' @ show_int slot))
                                   (sm2\<lparr>myCurrentSlot := c_rem (slot + 1) 10\<rparr>))
                              else
                                (Returned,
                                 emit (ShowMessage (''State '' @ show_int slot @ '' saved'')) sm2))
                           else
                             (Returned,
                              emit (ShowMessage (''Error saving state '' @ show_int slot)) sm2))))
      else (Returned, sm))"

text \<open>\<^verbatim>\<open>StateManager::changeState\<close>\<close>

definition changeState :: "'m StateManager \<Rightarrow> 'm StateManager" where
  "changeState sm =
     (let n = c_rem (myCurrentSlot sm + 1) 10
      in emit (ShowMessage (''Changed to slot '' @ show_int n)) (sm\<lparr>myCurrentSlot := n\<rparr>))"


text \<open>The range of the ten slots, which every operation keeps.\<close>

definition slot_in_range :: "'m StateManager \<Rightarrow> bool" where
  "slot_in_range sm \<longleftrightarrow> 0 \<le> myCurrentSlot sm \<and> myCurrentSlot sm < 10"

subsection \<open>A concrete session\<close>

text \<open>
  A console whose machine state is a number, attached to a running session with
  \<open>autoslot\<close> on and slot 3 current; the inputs at which the theorems below are
  exercised.
\<close>

definition ntsc_timing :: EmulationTiming where
  "ntsc_timing = \<lparr>cyclesPerSecond = 1193191, cyclesPerFrame = 19912,
                   maxCyclesPerTimeslice = 19912, minCyclesPerTimeslice = 9956\<rparr>"

definition demo_console :: "nat Console" where
  "demo_console = \<lparr>properties_Cartridge_Name = ''Pitfall'', cartridge_name = ''Cartridge4K'',
                    emulationTiming = ntsc_timing, tia_newFramePending = True,
                    tia_scanlinesLastFrame = 262, machine = 7\<rparr>"

definition demo_osystem :: "nat OSystem" where
  "demo_osystem = \<lparr>myConsole = Some demo_console, eventHandler_state = EMULATION,
                    stateDir = ''/state/'', settings_autoslot = True,
                    settings_dev_settings = False, settings_dev_timemachine = False,
                    settings_plr_timemachine = True\<rparr>"

definition demo_sm :: "nat StateManager" where
  "demo_sm = \<lparr>myOSystem = demo_osystem, myCurrentSlot = 3, myActiveMode = TimeMachine,
               calls = []\<rparr>"

text \<open>A \<^verbatim>\<open>Console::load\<close> that throws before it has written anything.\<close>

definition load_throws :: "string list \<Rightarrow> nat \<Rightarrow> nat load_outcome" where
  "load_throws body m = LoadThrows m"


definition save_ok_io :: save_io where
  "save_ok_io = \<lparr>open_out = (\<lambda>p. True), put_header_throws = False, put_name_throws = False\<rparr>"


section \<open>The scheduler: OSystem::dispatchEmulation and OSystem::mainLoop\<close>

text \<open>
  The arithmetic on \<^verbatim>\<open>double\<close> and the conversions of \<^verbatim>\<open>std::chrono\<close> are parameters:
  nothing is assumed about rounding. \<open>d_of_int n\<close> is the \<^verbatim>\<open>double\<close> for the integer
  value \<open>n\<close> (a literal such as \<^verbatim>\<open>60.\<close>, or \<^verbatim>\<open>static_cast<double>\<close> of an integer),
  \<open>d_div\<close> is \<^verbatim>\<open>/\<close>, \<open>d_gt\<close> is \<^verbatim>\<open>>\<close>, \<open>to_ticks\<close> is
  \<^verbatim>\<open>duration_cast<high_resolution_clock::duration>\<close> of a \<^verbatim>\<open>duration<double>\<close> and
  \<open>of_ticks\<close> is \<^verbatim>\<open>duration_cast<duration<double>>(...).count()\<close>. A time point
  and a duration of the clock are their tick counts, of type \<open>int\<close>.
\<close>

record 'd double_ops =
  d_of_int :: "int \<Rightarrow> 'd"
  d_div :: "'d \<Rightarrow> 'd \<Rightarrow> 'd"
  d_gt :: "'d \<Rightarrow> 'd \<Rightarrow> bool"
  to_ticks :: "'d \<Rightarrow> int"
  of_ticks :: "int \<Rightarrow> 'd"

text \<open>
  \<^verbatim>\<open>DispatchResult::Status\<close>: the three enumerators with a \<^verbatim>\<open>case\<close> label in
  \<^verbatim>\<open>dispatchEmulation\<close>; \<open>invalid\<close> is every other value (the \<^verbatim>\<open>default:\<close> label).
\<close>

datatype Status = invalid | ok | debugger | fatal

text \<open>
  What one run of the worker leaves behind: the cycle count that \<^verbatim>\<open>stop()\<close> returns and
  the status it wrote to the \<^verbatim>\<open>DispatchResult\<close>.
\<close>

record worker_run =
  totalCycles :: "64 word"
  result_status :: Status

text \<open>
  The calls of the foreground thread inside \<^verbatim>\<open>dispatchEmulation\<close>, named by receiver.
  C++ does not order the evaluation of the arguments of one call, so the argument
  evaluations of a call with several arguments are one entry:
  \<open>Timing_start_arguments\<close> is \<^verbatim>\<open>timing.cyclesPerSecond()\<close>,
  \<^verbatim>\<open>timing.maxCyclesPerTimeslice()\<close> and \<^verbatim>\<open>timing.minCyclesPerTimeslice()\<close>, all
  evaluated before \<^verbatim>\<open>emulationWorker.start\<close> is entered;
  \<open>Result_trap_arguments\<close> is \<^verbatim>\<open>getMessage()\<close>, \<^verbatim>\<open>getAddress()\<close>,
  \<^verbatim>\<open>wasReadTrap()\<close> and \<^verbatim>\<open>getToolTip()\<close> of the \<^verbatim>\<open>DispatchResult\<close>, all evaluated
  before \<^verbatim>\<open>myDebugger->start\<close> is entered.
\<close>

datatype fg_call =
    TIA_newFramePending
  | TIA_framesSinceLastRender
  | FpsMeter_render
  | TIA_renderToFrameBuffer
  | Timing_start_arguments
  | Worker_start "32 word" "32 word" "32 word"
  | FpsMeter_fps
  | FrameBuffer_updateInEmulationMode
  | Worker_stop
  | Result_getStatus
  | Result_trap_arguments
  | Result_getMessage
  | Debugger_start
  | Debugger_startWithFatalError
  | Cerr_message
  | EventHandler_frying
  | Console_fry
  | Timing_cyclesPerSecond










datatype failure = Invalid_dispatch_result | Null_console

text \<open>
  The calls on the \<^verbatim>\<open>DispatchResult\<close>, the debugger and \<^verbatim>\<open>cerr\<close> in the
  \<^verbatim>\<open>switch (dispatchResult.getStatus())\<close>; \<open>dbg\<close> is whether \<^verbatim>\<open>DEBUGGER_SUPPORT\<close> is
  defined.
\<close>

definition handle_result :: "bool \<Rightarrow> Status \<Rightarrow> fg_call list" where
  "handle_result dbg st =
     Result_getStatus #
     (case st of
        ok \<Rightarrow> []
      | debugger \<Rightarrow>
          (if dbg then [Result_trap_arguments, Debugger_start] else [])
      | fatal \<Rightarrow>
          (if dbg then [Result_getMessage, Debugger_startWithFatalError]
           else [Result_getMessage, Cerr_message])
      | invalid \<Rightarrow> [])"

text \<open>
  \<^verbatim>\<open>OSystem::dispatchEmulation\<close>: the calls of the foreground thread in program order, and
  the value returned (or the \<^verbatim>\<open>runtime_error\<close> thrown at the \<^verbatim>\<open>default:\<close> label).
  \<open>run\<close> is what the worker did between \<^verbatim>\<open>start\<close> and \<^verbatim>\<open>stop\<close>; \<open>frying\<close> is the
  answer of \<^verbatim>\<open>myEventHandler->frying()\<close>.
\<close>

definition dispatchEmulation ::
  "'d double_ops \<Rightarrow> bool \<Rightarrow> 'm Console option \<Rightarrow> worker_run \<Rightarrow> bool
     \<Rightarrow> fg_call list \<times> (failure + 'd)" where
  "dispatchEmulation ops dbg con run frying =
     (case con of
        None \<Rightarrow> ([], Inr (d_of_int ops 0))
      | Some c \<Rightarrow>
          let timing = emulationTiming c;
              framePending = tia_newFramePending c;
              pre = TIA_newFramePending #
                    (if framePending
                     then [TIA_framesSinceLastRender, FpsMeter_render, TIA_renderToFrameBuffer]
                     else []) @
                    [Timing_start_arguments];
              start = Worker_start (cyclesPerSecond timing) (maxCyclesPerTimeslice timing)
                        (minCyclesPerTimeslice timing);
              mid = (if framePending then [FpsMeter_fps, FrameBuffer_updateInEmulationMode]
                     else []);
              st = result_status run;
              upto = pre @ [start] @ mid @ [Worker_stop] @ handle_result dbg st
          in if st = invalid then (upto, Inl Invalid_dispatch_result)
             else
               (upto @
                (if st = ok then Result_getStatus # EventHandler_frying #
                                   (if frying then [Console_fry] else [])
                 else [Result_getStatus]) @
                [Timing_cyclesPerSecond],
                Inr (d_div ops (d_of_int ops (uint (totalCycles run)))
                       (d_of_int ops (uint (cyclesPerSecond timing))))))"

text \<open>
  What one iteration of \<^verbatim>\<open>mainLoop\<close> reads from its environment: the state of the event
  handler before and after \<^verbatim>\<open>poll\<close>, \<^verbatim>\<open>myQuitLoop\<close>, \<^verbatim>\<open>myConsole\<close>, the run of the
  worker, and the two readings of \<^verbatim>\<open>high_resolution_clock::now()\<close>.
\<close>

record 'm loop_input =
  state_before :: EventHandlerState
  state_polled :: EventHandlerState
  quit_loop :: bool
  loop_console :: "'m Console option"
  loop_run :: worker_run
  loop_frying :: bool
  now_on_entry :: int
  now_after :: int

text \<open>
  \<^verbatim>\<open>timesliceSeconds\<close>, by the state of the event handler. In PLAYBACK the code
  dereferences \<^verbatim>\<open>myConsole\<close> without a test; the product
  \<^verbatim>\<open>scanlinesLastFrame() * 76\<close> is computed on unsigned 32-bit integers before the
  conversion.
\<close>

definition timesliceSeconds ::
  "'d double_ops \<Rightarrow> bool \<Rightarrow> 'm loop_input \<Rightarrow> failure + 'd" where
  "timesliceSeconds ops dbg inp =
     (if state_polled inp = EMULATION then
        snd (dispatchEmulation ops dbg (loop_console inp) (loop_run inp) (loop_frying inp))
      else if state_polled inp = PLAYBACK then
        (case loop_console inp of
           None \<Rightarrow> Inl Null_console
         | Some c \<Rightarrow>
             Inr (d_div ops (d_of_int ops (uint (tia_scanlinesLastFrame c * 76)))
                    (d_of_int ops (uint (cyclesPerSecond (emulationTiming c))))))
      else Inr (d_div ops (d_of_int ops 1) (d_of_int ops 60)))"

text \<open>\<^verbatim>\<open>maxLag\<close>: one frame's duration, or 0 without a console.\<close>

definition maxLag :: "'d double_ops \<Rightarrow> 'm Console option \<Rightarrow> 'd" where
  "maxLag ops con =
     (case con of
        Some c \<Rightarrow> d_div ops (d_of_int ops (uint (cyclesPerFrame (emulationTiming c))))
                    (d_of_int ops (uint (cyclesPerSecond (emulationTiming c))))
      | None \<Rightarrow> d_of_int ops 0)"

text \<open>
  How one iteration of the \<^verbatim>\<open>for(;;)\<close> loop ends: the loop is left (\<^verbatim>\<open>break\<close>), an
  exception leaves it, or the next iteration starts with a new virtual time, after
  \<^verbatim>\<open>sleep_until(virtualTime)\<close> or without it.
\<close>

datatype iteration = Quit | Failed failure | Next int bool

definition virtualTime_advanced :: "'d double_ops \<Rightarrow> 'm loop_input \<Rightarrow> int \<Rightarrow> 'd \<Rightarrow> int" where
  "virtualTime_advanced ops inp virtualTime ts =
     (if state_before inp \<noteq> EMULATION \<and> state_polled inp = EMULATION then now_on_entry inp
      else virtualTime) + to_ticks ops ts"

definition mainLoop_iteration ::
  "'d double_ops \<Rightarrow> bool \<Rightarrow> 'm loop_input \<Rightarrow> int \<Rightarrow> iteration" where
  "mainLoop_iteration ops dbg inp virtualTime =
     (if quit_loop inp then Quit
      else
        (case timesliceSeconds ops dbg inp of
           Inl e \<Rightarrow> Failed e
         | Inr ts \<Rightarrow>
             let vt = virtualTime_advanced ops inp virtualTime ts;
                 now = now_after inp
             in if d_gt ops (of_ticks ops (now - vt)) (maxLag ops (loop_console inp))
                then Next now False
                else if vt > now then Next vt True
                else Next vt False))"


subsection \<open>Concrete inputs of the scheduler\<close>

text \<open>
  An instance of the parameters, to exercise the theorems: exact rational arithmetic in
  place of \<^verbatim>\<open>double\<close>, and a clock that ticks in nanoseconds (the conversion to ticks
  truncates towards zero).
\<close>

definition exact_ops :: "rat double_ops" where
  "exact_ops = \<lparr>d_of_int = of_int, d_div = (\<lambda>a b. a / b), d_gt = (\<lambda>a b. a > b),
                 to_ticks = (\<lambda>d. if d < 0 then - \<lfloor>- d * 1000000000\<rfloor> else \<lfloor>d * 1000000000\<rfloor>),
                 of_ticks = (\<lambda>t. of_int t / 1000000000)\<rparr>"

text \<open>
  An iteration in the launcher, one second of wall time after the last one; the same in
  emulation with the concrete console, after a run of 19912 cycles; and in playback.
  \<open>render_reads_tia\<close> is a \<^verbatim>\<open>FrameBuffer::updateInEmulationMode\<close> whose body reads
  the TIA to draw the frame.
\<close>

definition ui_input :: "nat loop_input" where
  "ui_input = \<lparr>state_before = LAUNCHER, state_polled = LAUNCHER, quit_loop = False,
                loop_console = None, loop_run = \<lparr>totalCycles = 0, result_status = ok\<rparr>,
                loop_frying = False, now_on_entry = 0, now_after = 1000000000\<rparr>"

definition emulation_input :: "nat loop_input" where
  "emulation_input = \<lparr>state_before = EMULATION, state_polled = EMULATION, quit_loop = False,
                       loop_console = Some demo_console,
                       loop_run = \<lparr>totalCycles = 19912, result_status = ok\<rparr>,
                       loop_frying = False, now_on_entry = 0, now_after = 1000000000\<rparr>"


definition playback_input :: "nat loop_input" where
  "playback_input = emulation_input\<lparr>state_before := PLAYBACK, state_polled := PLAYBACK\<rparr>"


section \<open>Properties of BreakpointMap\<close>

lemma bp_eq_refl: "bp_eq k k"
  by (simp add: bp_eq_def)

lemma bp_eq_sym: "bp_eq a b \<Longrightarrow> bp_eq b a"
  by (simp add: bp_eq_def)

lemma bp_eq_trans: "bp_eq a b \<Longrightarrow> bp_eq b c \<Longrightarrow> bp_eq a c"
  by (simp add: bp_eq_def)

lemma bp_eq_cong: "bp_eq a b \<Longrightarrow> bp_eq k a = bp_eq k b"
  by (auto simp: bp_eq_def)

lemma hash_respects_bp_eq: "bp_eq a b \<Longrightarrow> BreakpointHash h a = BreakpointHash h b"
  by (simp add: bp_eq_def BreakpointHash_def hash_arg_def)

lemma map_find_cong: "bp_eq a b \<Longrightarrow> map_find es a = map_find es b"
  by (induction es) (auto simp: bp_eq_cong)

lemma map_assign_cong:
  "bp_eq a b \<Longrightarrow>
   map_option snd (map_find (map_assign es a f) k) = map_option snd (map_find (map_assign es b f) k)"
  by (induction es) (auto simp: bp_eq_def)

lemma map_erase_cong: "bp_eq a b \<Longrightarrow> map_erase es a = map_erase es b"
  by (induction es) (auto simp: bp_eq_cong)

lemma map_find_assign_same: "\<exists>k'. map_find (map_assign es k f) k = Some (k', f)"
  by (induction es) (auto simp: bp_eq_refl)

lemma map_find_erase_same: "map_find (map_erase es k) k = None"
  by (induction es) auto

lemma map_find_assign_other:
  "\<not> bp_eq k j \<Longrightarrow> map_find (map_assign es k f) j = map_find es j"
  by (induction es) (auto simp: bp_eq_def)

lemma map_find_erase_other:
  "\<not> bp_eq k j \<Longrightarrow> map_find (map_erase es k) j = map_find es j"
  by (induction es) (auto simp: bp_eq_def)

lemma map_find_None_assign:
  "map_find es j = None \<Longrightarrow> \<not> bp_eq k j \<Longrightarrow> map_find (map_assign es k f) j = None"
  by (simp add: map_find_assign_other)

lemma unique_keys_assign: "unique_keys es \<Longrightarrow> unique_keys (map_assign es k f)"
proof (induction es)
  case Nil
  then show ?case by simp
next
  case (Cons e es)
  obtain k' v where e: "e = (k', v)" by (cases e)
  show ?case
  proof (cases "bp_eq k' k")
    case True
    with Cons.prems e show ?thesis by simp
  next
    case False
    then have "\<not> bp_eq k k'" using bp_eq_sym by blast
    with Cons e False show ?thesis
      by (simp add: map_find_assign_other)
  qed
qed

lemma map_find_erase_None: "map_find es j = None \<Longrightarrow> map_find (map_erase es k) j = None"
  by (induction es) (auto split: if_splits)

lemma unique_keys_erase: "unique_keys es \<Longrightarrow> unique_keys (map_erase es k)"
  by (induction es) (auto simp: map_find_erase_None)

text \<open>Every map built from the empty one holds at most one element per key.\<close>

lemma unique_keys_apply_bp_op: "unique_keys (myMap m) \<Longrightarrow> unique_keys (myMap (apply_bp_op m x))"
  by (cases x) (simp_all add: add_def erase_def clear_def unique_keys_assign unique_keys_erase)

lemma unique_keys_apply_bp_ops:
  "unique_keys (myMap m) \<Longrightarrow> unique_keys (myMap (apply_bp_ops m xs))"
  by (induction xs arbitrary: m) (simp_all add: unique_keys_apply_bp_op)

lemma unique_keys_reachable: "unique_keys (myMap (apply_bp_ops BreakpointMap_new xs))"
  by (rule unique_keys_apply_bp_ops) (simp add: BreakpointMap_new_def)

text \<open>
  C3. For every address, bank and flag value: after \<open>add\<close>, \<open>check\<close> of the same
  (address, bank) returns true and \<open>get\<close> returns exactly the flags passed; after
  \<open>erase\<close>, \<open>check\<close> returns false. It holds from every state of the map, for the
  Breakpoint overloads and for the (addr, bank) overloads.
\<close>

theorem C3_add_check_get_erase:
  "check (add m bp f) bp \<and> get (add m bp f) bp = f \<and> \<not> check (erase m bp) bp
   \<and> check_addr (add_addr m a b f) a b \<and> get_addr (add_addr m a b f) a b = f
   \<and> \<not> check_addr (erase_addr m a b) a b"
proof -
  have find_add: "\<exists>k'. map_find (myMap (add m' k f)) k = Some (k', f)" for m' k
    using map_find_assign_same [of "myMap m'" k f] by (simp add: add_def)
  have find_erase: "map_find (myMap (erase m' k)) k = None" for m' k
    by (simp add: erase_def map_find_erase_same)
  have c: "check (add m' k f) k" and g: "get (add m' k f) k = f" for m' k
    using find_add [of m' k] by (auto simp: check_def get_def)
  have e: "\<not> check (erase m' k) k" for m' k
    using find_erase [of m' k] by (simp add: check_def)
  show ?thesis
    using c g e by (simp add: check_addr_def get_addr_def add_addr_def erase_addr_def)
qed

lemma isInitialized_apply_bp_op: "isInitialized m \<Longrightarrow> isInitialized (apply_bp_op m x)"
  by (cases x) (simp_all add: isInitialized_def add_def erase_def clear_def)

lemma isInitialized_apply_bp_ops: "isInitialized m \<Longrightarrow> isInitialized (apply_bp_ops m xs)"
  by (induction xs arbitrary: m) (simp_all add: isInitialized_apply_bp_op)

text \<open>
  C9. \<open>isInitialized\<close> is false on a newly constructed map and true after an \<open>add\<close>;
  \<open>erase\<close> and \<open>clear\<close> leave it as it was, so after an \<open>add\<close> it stays true through
  every later sequence of \<open>add\<close>, \<open>erase\<close> and \<open>clear\<close>. In particular a map emptied
  by \<open>clear\<close> has size 0 and still reports \<open>isInitialized\<close>.
\<close>

theorem C9_isInitialized_monotone:
  "\<not> isInitialized BreakpointMap_new
   \<and> isInitialized (add m bp f)
   \<and> isInitialized (erase m bp) = isInitialized m
   \<and> isInitialized (clear m) = isInitialized m
   \<and> isInitialized (apply_bp_ops (add m bp f) xs)
   \<and> size_bp (clear (add m bp f)) = 0
   \<and> isInitialized (clear (add m bp f))"
proof -
  have a: "isInitialized (add m bp f)"
    by (simp add: isInitialized_def add_def)
  have "isInitialized (apply_bp_ops (add m bp f) xs)"
    using a by (rule isInitialized_apply_bp_ops)
  then show ?thesis
    by (simp add: isInitialized_def BreakpointMap_new_def add_def erase_def clear_def size_bp_def)
qed

lemma mk_bp_eq:
  "a1 AND ADDRESS_MASK = a2 AND ADDRESS_MASK \<Longrightarrow> bp_eq (mkBreakpoint a1 b) (mkBreakpoint a2 b)"
  by (simp add: bp_eq_def mkBreakpoint_def)

lemma check_cong: "bp_eq j k \<Longrightarrow> check m j = check m k"
  by (simp add: check_def map_find_cong [of j k])

lemma get_cong: "bp_eq j k \<Longrightarrow> get m j = get m k"
  by (simp add: get_def map_find_cong [of j k])

lemma erase_cong: "bp_eq j k \<Longrightarrow> erase m j = erase m k"
  by (simp add: erase_def map_erase_cong [of j k])

lemma check_add_eq: "bp_eq j k \<Longrightarrow> check (add m j f) k"
  using map_find_assign_same [of "myMap m" j f] map_find_cong [of j k "map_assign (myMap m) j f"]
  by (auto simp: check_def add_def)

lemma get_add_eq: "bp_eq j k \<Longrightarrow> get (add m j f) k = f"
  using map_find_assign_same [of "myMap m" j f] map_find_cong [of j k "map_assign (myMap m) j f"]
  by (auto simp: get_def add_def)

lemma check_erase_eq: "bp_eq j k \<Longrightarrow> \<not> check (erase m j) k"
  using map_find_erase_same [of "myMap m" j] map_find_cong [of j k "map_erase (myMap m) j"]
  by (auto simp: check_def erase_def)

text \<open>
  C4. Two breakpoints with the same bank whose addresses agree in the low 13 bits are one
  key: they compare equal and hash alike, and \<open>check\<close>, \<open>get\<close> and \<open>erase\<close> with one
  of them behave as with the other, in particular after the other was added.
\<close>

theorem C4_masked_addresses_collide:
  assumes "a1 AND 0x1fff = a2 AND 0x1fff"
  shows "bp_eq (mkBreakpoint a1 b) (mkBreakpoint a2 b)
    \<and> BreakpointHash h (mkBreakpoint a1 b) = BreakpointHash h (mkBreakpoint a2 b)
    \<and> check_addr (add_addr m a1 b f) a2 b
    \<and> get_addr (add_addr m a1 b f) a2 b = f
    \<and> \<not> check_addr (erase_addr (add_addr m a1 b f) a2 b) a1 b
    \<and> check_addr m a2 b = check_addr m a1 b
    \<and> get_addr m a2 b = get_addr m a1 b
    \<and> erase_addr m a2 b = erase_addr m a1 b"
proof -
  let ?k1 = "mkBreakpoint a1 b" and ?k2 = "mkBreakpoint a2 b"
  have e: "bp_eq ?k1 ?k2"
    using assms by (simp add: mk_bp_eq ADDRESS_MASK_def)
  then have e': "bp_eq ?k2 ?k1" by (rule bp_eq_sym)
  have h: "BreakpointHash h ?k1 = BreakpointHash h ?k2"
    using e by (rule hash_respects_bp_eq)
  have c: "check (add m ?k1 f) ?k2" using e by (rule check_add_eq)
  have g: "get (add m ?k1 f) ?k2 = f" using e by (rule get_add_eq)
  have x: "\<not> check (erase (add m ?k1 f) ?k2) ?k1" using e' by (rule check_erase_eq)
  have c2: "check m ?k2 = check m ?k1" using e' by (rule check_cong)
  have g2: "get m ?k2 = get m ?k1" using e' by (rule get_cong)
  have x2: "erase m ?k2 = erase m ?k1" using e' by (rule erase_cong)
  show ?thesis
    using e h c g x c2 g2 x2
    by (simp add: check_addr_def get_addr_def add_addr_def erase_addr_def)
qed

text \<open>The example of the specification: addresses 0x1000 and 0x3000, bank 0.\<close>

theorem C4_witness:
  "(0x1000 :: 16 word) AND 0x1fff = 0x3000 AND 0x1fff
   \<and> check_addr (add_addr BreakpointMap_new 0x1000 0 ONE_SHOT) 0x3000 0
   \<and> get_addr (add_addr BreakpointMap_new 0x1000 0 ONE_SHOT) 0x3000 0 = 1
   \<and> \<not> check_addr (erase_addr (add_addr BreakpointMap_new 0x1000 0 ONE_SHOT) 0x3000 0) 0x1000 0"
proof -
  have h: "(0x1000 :: 16 word) AND 0x1fff = 0x3000 AND 0x1fff" by simp
  show ?thesis
    using h C4_masked_addresses_collide [OF h, of 0 id BreakpointMap_new ONE_SHOT]
    by (simp add: ONE_SHOT_def)
qed

section \<open>Properties of StateManager\<close>

lemma emit_calls: "calls (emit e sm) = calls sm @ [e]"
  by (simp add: emit_def)

text \<open>
  C6. In mode TimeMachine \<open>update\<close> issues exactly one call of
  \<^verbatim>\<open>RewindManager::addState\<close>, with the label "Time Machine" and \<open>continuous = true\<close>,
  and changes nothing else; in mode Off it does nothing: no call is issued and no field
  of the StateManager changes.
\<close>

theorem C6_update:
  "(myActiveMode sm = TimeMachine \<longrightarrow>
      update sm = sm\<lparr>calls := calls sm @ [AddState ''Time Machine'' True]\<rparr>
      \<and> length (filter is_addState (calls (update sm)))
          = length (filter is_addState (calls sm)) + 1)
   \<and> (myActiveMode sm = Off \<longrightarrow> update sm = sm)"
  by (simp add: update_def emit_def)

text \<open>Both modes at the concrete session.\<close>

theorem C6_witness:
  "update demo_sm = demo_sm\<lparr>calls := [AddState ''Time Machine'' True]\<rparr>
   \<and> update (demo_sm\<lparr>myActiveMode := Off\<rparr>) = demo_sm\<lparr>myActiveMode := Off\<rparr>"
proof -
  have tm: "myActiveMode demo_sm = TimeMachine"
    by (simp add: demo_sm_def)
  have off: "myActiveMode (demo_sm\<lparr>myActiveMode := Off\<rparr>) = Off"
    by simp
  have c: "calls demo_sm = []"
    by (simp add: demo_sm_def)
  from C6_update [of demo_sm] tm c
  have 1: "update demo_sm = demo_sm\<lparr>calls := [AddState ''Time Machine'' True]\<rparr>"
    by simp
  from C6_update [of "demo_sm\<lparr>myActiveMode := Off\<rparr>"] off
  have 2: "update (demo_sm\<lparr>myActiveMode := Off\<rparr>) = demo_sm\<lparr>myActiveMode := Off\<rparr>"
    by blast
  from 1 2 show ?thesis by simp
qed

text \<open>
  C10. Without a console (\<open>hasConsole\<close> is false) \<open>saveState\<close> and \<open>loadState\<close> return
  at once for every slot argument: no file is opened or written, no message is shown
  (the recorded calls are unchanged) and no field of the StateManager changes,
  \<open>myCurrentSlot\<close> included, whatever the \<open>autoslot\<close> setting.
\<close>

theorem C10_no_console_no_effect:
  assumes "\<not> hasConsole (myOSystem sm)"
  shows "saveState csave io sm slot = (Returned, sm) \<and> loadState cload open_in sm slot = sm"
  using assms by (simp add: saveState_def loadState_def)

text \<open>The concrete session with its console detached and \<open>autoslot\<close> on.\<close>

theorem C10_witness:
  "\<not> hasConsole (myOSystem (demo_sm\<lparr>myOSystem := demo_osystem\<lparr>myConsole := None\<rparr>\<rparr>))
   \<and> settings_autoslot (myOSystem (demo_sm\<lparr>myOSystem := demo_osystem\<lparr>myConsole := None\<rparr>\<rparr>))
   \<and> saveState (\<lambda>m. Some True) save_ok_io (demo_sm\<lparr>myOSystem := demo_osystem\<lparr>myConsole := None\<rparr>\<rparr>) (-1)
       = (Returned, demo_sm\<lparr>myOSystem := demo_osystem\<lparr>myConsole := None\<rparr>\<rparr>)
   \<and> loadState load_throws (\<lambda>p. Some []) (demo_sm\<lparr>myOSystem := demo_osystem\<lparr>myConsole := None\<rparr>\<rparr>) 4
       = demo_sm\<lparr>myOSystem := demo_osystem\<lparr>myConsole := None\<rparr>\<rparr>"
proof -
  let ?sm = "demo_sm\<lparr>myOSystem := demo_osystem\<lparr>myConsole := None\<rparr>\<rparr>"
  have h: "\<not> hasConsole (myOSystem ?sm)"
    by (simp add: hasConsole_def)
  have a: "settings_autoslot (myOSystem ?sm)"
    by (simp add: demo_osystem_def)
  from C10_no_console_no_effect [OF h] h a show ?thesis by simp
qed


lemma c_rem_nonneg: "0 \<le> a \<Longrightarrow> c_rem a 10 = a mod 10"
  by (simp add: c_rem_def sgn_if)

lemma used_slot_idem: "used_slot sm (used_slot sm slot0) = used_slot sm slot0"
  by (simp add: used_slot_def)

lemma saveState_used_slot: "saveState csave io sm slot0 = saveState csave io sm (used_slot sm slot0)"
  by (simp only: saveState_def used_slot_idem)

lemma loadState_used_slot: "loadState cload open_in sm slot0 = loadState cload open_in sm (used_slot sm slot0)"
  by (simp only: loadState_def used_slot_idem)

lemma used_slot_neg: "slot0 < 0 \<Longrightarrow> used_slot sm slot0 = myCurrentSlot sm"
  by (simp add: used_slot_def)

lemma used_slot_nonneg: "0 \<le> myCurrentSlot sm \<Longrightarrow> 0 \<le> used_slot sm slot0"
  by (simp add: used_slot_def)

lemma saveState_success:
  assumes "hasConsole (myOSystem sm)" and "myConsole (myOSystem sm) = Some c"
    and "open_out io (state_file (myOSystem sm) c (used_slot sm slot0))"
    and "\<not> put_header_throws io" and "\<not> put_name_throws io"
    and "csave (machine c) = Some True" and "settings_autoslot (myOSystem sm)"
  shows "saveState csave io sm slot0 =
      (Returned,
       sm\<lparr>myCurrentSlot := c_rem (used_slot sm slot0 + 1) 10,
          calls := calls sm @
            [OpenWrite (state_file (myOSystem sm) c (used_slot sm slot0)),
             PutString STATE_HEADER, PutString (cartridge_name c), ConsoleSave,
             ShowMessage (''State '' @ show_int (used_slot sm slot0) @ '' saved''
                            @ '', switching to slot '' @ show_int (used_slot sm slot0))]\<rparr>)"
  using assms by (simp add: saveState_def Let_def emit_def)

lemma saveState_opens:
  assumes "hasConsole (myOSystem sm)" and "myConsole (myOSystem sm) = Some c"
  shows "\<exists>rest. calls (snd (saveState csave io sm slot0)) =
           calls sm @ OpenWrite (state_file (myOSystem sm) c (used_slot sm slot0)) # rest"
  using assms
  by (simp add: saveState_def Let_def emit_def split: option.splits)

text \<open>
  C5. With a console attached: \<open>saveState\<close> with a negative slot argument is
  \<open>saveState\<close> with \<open>myCurrentSlot\<close>, and the file it opens for writing is the one
  numbered \<open>myCurrentSlot\<close>. When \<open>autoslot\<close> is on and the save succeeds (the file
  opens, the header writes do not throw, \<^verbatim>\<open>Console::save\<close> returns true),
  \<open>myCurrentSlot\<close> becomes the successor modulo 10 of the slot just saved, which is
  then the slot a negative argument selects. \<open>myCurrentSlot\<close> is assumed non-negative
  (it always is, see \<open>slot_in_range\<close>) and the argument below \<^verbatim>\<open>INT_MAX\<close>, where
  \<^verbatim>\<open>slot + 1\<close> is defined.
\<close>

theorem C5_saveState_slot:
  assumes con: "hasConsole (myOSystem sm)" "myConsole (myOSystem sm) = Some c"
  shows
    "(slot0 < 0 \<longrightarrow>
        saveState csave io sm slot0 = saveState csave io sm (myCurrentSlot sm)
        \<and> (\<exists>rest. calls (snd (saveState csave io sm slot0)) =
              calls sm @ OpenWrite (state_file (myOSystem sm) c (myCurrentSlot sm)) # rest))
     \<and> (0 \<le> myCurrentSlot sm \<and> slot0 < 2147483647
        \<and> settings_autoslot (myOSystem sm)
        \<and> open_out io (state_file (myOSystem sm) c (used_slot sm slot0))
        \<and> \<not> put_header_throws io \<and> \<not> put_name_throws io
        \<and> csave (machine c) = Some True \<longrightarrow>
          fst (saveState csave io sm slot0) = Returned
          \<and> myCurrentSlot (snd (saveState csave io sm slot0)) = (used_slot sm slot0 + 1) mod 10
          \<and> used_slot (snd (saveState csave io sm slot0)) (-1) = (used_slot sm slot0 + 1) mod 10
          \<and> calls (snd (saveState csave io sm slot0)) =
              calls sm @
              [OpenWrite (state_file (myOSystem sm) c (used_slot sm slot0)),
               PutString STATE_HEADER, PutString (cartridge_name c), ConsoleSave,
               ShowMessage (''State '' @ show_int (used_slot sm slot0) @ '' saved''
                              @ '', switching to slot '' @ show_int (used_slot sm slot0))])"
proof (intro conjI impI)
  assume neg: "slot0 < 0"
  have "used_slot sm slot0 = myCurrentSlot sm"
    using neg by (simp add: used_slot_def)
  then show "saveState csave io sm slot0 = saveState csave io sm (myCurrentSlot sm)"
    using saveState_used_slot [of csave io sm slot0] by simp
  show "\<exists>rest. calls (snd (saveState csave io sm slot0)) =
          calls sm @ OpenWrite (state_file (myOSystem sm) c (myCurrentSlot sm)) # rest"
    using saveState_opens [OF con, of csave io slot0] neg by (simp add: used_slot_def)
next
  assume h: "0 \<le> myCurrentSlot sm \<and> slot0 < 2147483647
        \<and> settings_autoslot (myOSystem sm)
        \<and> open_out io (state_file (myOSystem sm) c (used_slot sm slot0))
        \<and> \<not> put_header_throws io \<and> \<not> put_name_throws io
        \<and> csave (machine c) = Some True"
  then have eq: "saveState csave io sm slot0 =
      (Returned,
       sm\<lparr>myCurrentSlot := c_rem (used_slot sm slot0 + 1) 10,
          calls := calls sm @
            [OpenWrite (state_file (myOSystem sm) c (used_slot sm slot0)),
             PutString STATE_HEADER, PutString (cartridge_name c), ConsoleSave,
             ShowMessage (''State '' @ show_int (used_slot sm slot0) @ '' saved''
                            @ '', switching to slot '' @ show_int (used_slot sm slot0))]\<rparr>)"
    using con by (intro saveState_success) simp_all
  have nn: "0 \<le> used_slot sm slot0 + 1"
    using h used_slot_nonneg [of sm slot0] by simp
  have r: "c_rem (used_slot sm slot0 + 1) 10 = (used_slot sm slot0 + 1) mod 10"
    using nn by (rule c_rem_nonneg)
  show "fst (saveState csave io sm slot0) = Returned"
    by (simp add: eq)
  show "myCurrentSlot (snd (saveState csave io sm slot0)) = (used_slot sm slot0 + 1) mod 10"
    by (simp add: eq r)
  show "used_slot (snd (saveState csave io sm slot0)) (-1) = (used_slot sm slot0 + 1) mod 10"
    by (simp add: eq r used_slot_neg)
  show "calls (snd (saveState csave io sm slot0)) =
              calls sm @
              [OpenWrite (state_file (myOSystem sm) c (used_slot sm slot0)),
               PutString STATE_HEADER, PutString (cartridge_name c), ConsoleSave,
               ShowMessage (''State '' @ show_int (used_slot sm slot0) @ '' saved''
                              @ '', switching to slot '' @ show_int (used_slot sm slot0))]"
    by (simp add: eq)
qed

lemma show_int_3: "show_int 3 = ''3''"
  by (simp add: show_int_def dec_digits.simps)

lemma show_int_9: "show_int 9 = ''9''"
  by (simp add: show_int_def dec_digits.simps)

text \<open>Slot 3 is saved and slot 4 becomes current; from slot 9 the current slot wraps to 0.\<close>

theorem C5_witness:
  "saveState (\<lambda>m. Some True) save_ok_io demo_sm (-1) = saveState (\<lambda>m. Some True) save_ok_io demo_sm 3
   \<and> myCurrentSlot (snd (saveState (\<lambda>m. Some True) save_ok_io demo_sm (-1))) = 4
   \<and> calls (snd (saveState (\<lambda>m. Some True) save_ok_io demo_sm (-1))) =
       [OpenWrite ''/state/Pitfall.st3'', PutString ''05099100state'', PutString ''Cartridge4K'',
        ConsoleSave, ShowMessage ''State 3 saved, switching to slot 3'']
   \<and> myCurrentSlot (snd (saveState (\<lambda>m. Some True) save_ok_io (demo_sm\<lparr>myCurrentSlot := 9\<rparr>) (-1))) = 0"
proof -
  let ?sv = "\<lambda>m::nat. Some True"
  have con: "hasConsole (myOSystem demo_sm)" "myConsole (myOSystem demo_sm) = Some demo_console"
    by (simp_all add: demo_sm_def demo_osystem_def hasConsole_def)
  have con9: "hasConsole (myOSystem (demo_sm\<lparr>myCurrentSlot := 9\<rparr>))"
    "myConsole (myOSystem (demo_sm\<lparr>myCurrentSlot := 9\<rparr>)) = Some demo_console"
    by (simp_all add: demo_sm_def demo_osystem_def hasConsole_def)
  have u: "used_slot demo_sm (-1) = 3" "myCurrentSlot demo_sm = 3" "calls demo_sm = []"
    "used_slot (demo_sm\<lparr>myCurrentSlot := 9\<rparr>) (-1) = 9"
    by (simp_all add: used_slot_def demo_sm_def)
  have f: "state_file (myOSystem demo_sm) demo_console 3 = ''/state/Pitfall.st3''"
    by (simp add: state_file_def demo_sm_def demo_osystem_def demo_console_def show_int_3)
  have pre: "0 \<le> myCurrentSlot demo_sm \<and> (-1::int) < 2147483647
        \<and> settings_autoslot (myOSystem demo_sm)
        \<and> open_out save_ok_io (state_file (myOSystem demo_sm) demo_console (used_slot demo_sm (-1)))
        \<and> \<not> put_header_throws save_ok_io \<and> \<not> put_name_throws save_ok_io
        \<and> ?sv (machine demo_console) = Some True"
    by (simp add: demo_sm_def demo_osystem_def save_ok_io_def)
  have pre9: "0 \<le> myCurrentSlot (demo_sm\<lparr>myCurrentSlot := 9\<rparr>) \<and> (-1::int) < 2147483647
        \<and> settings_autoslot (myOSystem (demo_sm\<lparr>myCurrentSlot := 9\<rparr>))
        \<and> open_out save_ok_io (state_file (myOSystem (demo_sm\<lparr>myCurrentSlot := 9\<rparr>)) demo_console
             (used_slot (demo_sm\<lparr>myCurrentSlot := 9\<rparr>) (-1)))
        \<and> \<not> put_header_throws save_ok_io \<and> \<not> put_name_throws save_ok_io
        \<and> ?sv (machine demo_console) = Some True"
    by (simp add: demo_sm_def demo_osystem_def save_ok_io_def)
  have neg: "(-1::int) < 0" by simp
  note t1 = C5_saveState_slot [OF con, of "-1" ?sv save_ok_io, THEN conjunct1, THEN mp, OF neg]
  note t2 = C5_saveState_slot [OF con, of "-1" ?sv save_ok_io, THEN conjunct2, THEN mp, OF pre]
  note t9 = C5_saveState_slot [OF con9, of "-1" ?sv save_ok_io, THEN conjunct2, THEN mp, OF pre9]
  have a: "saveState ?sv save_ok_io demo_sm (-1) = saveState ?sv save_ok_io demo_sm 3"
    using t1 [THEN conjunct1] u(2) by simp
  have b: "myCurrentSlot (snd (saveState ?sv save_ok_io demo_sm (-1))) = 4"
    using t2 [THEN conjunct2, THEN conjunct1] u(1) by simp
  have c: "calls (snd (saveState ?sv save_ok_io demo_sm (-1))) =
       [OpenWrite ''/state/Pitfall.st3'', PutString ''05099100state'', PutString ''Cartridge4K'',
        ConsoleSave, ShowMessage ''State 3 saved, switching to slot 3'']"
    using t2 [THEN conjunct2, THEN conjunct2, THEN conjunct2] u(1) u(3) f
    by (simp add: STATE_HEADER_def demo_console_def show_int_3)
  have d: "myCurrentSlot (snd (saveState ?sv save_ok_io (demo_sm\<lparr>myCurrentSlot := 9\<rparr>) (-1))) = 0"
    using t9 [THEN conjunct2, THEN conjunct1] u(4) by simp
  from a b c d show ?thesis by simp
qed

text \<open>
  The constructor sets \<open>myCurrentSlot\<close> to 0 and every operation keeps it within 0..9.
\<close>

lemma c_rem_10_range: "0 \<le> a \<Longrightarrow> 0 \<le> c_rem a 10 \<and> c_rem a 10 < 10"
  by (simp add: c_rem_nonneg)

lemma slot_in_range_new: "slot_in_range (StateManager_new os)"
  by (simp add: slot_in_range_def StateManager_new_def reset_def emit_def Let_def)

lemma slot_in_range_changeState: "slot_in_range sm \<Longrightarrow> slot_in_range (changeState sm)"
  using c_rem_10_range [of "myCurrentSlot sm + 1"]
  by (simp add: slot_in_range_def changeState_def emit_def Let_def)

lemma slot_in_range_update: "slot_in_range sm \<Longrightarrow> slot_in_range (update sm)"
  by (simp add: slot_in_range_def update_def emit_def split: Mode.splits)

lemma slot_in_range_reset: "slot_in_range sm \<Longrightarrow> slot_in_range (reset sm)"
  by (simp add: slot_in_range_def reset_def emit_def Let_def)

lemma slot_in_range_toggle: "slot_in_range sm \<Longrightarrow> slot_in_range (toggleTimeMachine sm)"
  by (simp add: slot_in_range_def toggleTimeMachine_def emit_def Let_def)

lemma myCurrentSlot_loadState: "myCurrentSlot (loadState cload open_in sm slot0) = myCurrentSlot sm"
  by (simp add: loadState_def emit_def set_machine_def Let_def split: option.splits prod.splits)

lemma slot_in_range_loadState: "slot_in_range sm \<Longrightarrow> slot_in_range (loadState cload open_in sm slot0)"
  by (simp add: slot_in_range_def myCurrentSlot_loadState)

lemma myCurrentSlot_saveState:
  "myCurrentSlot (snd (saveState csave io sm slot0)) = myCurrentSlot sm
   \<or> myCurrentSlot (snd (saveState csave io sm slot0)) = c_rem (used_slot sm slot0 + 1) 10"
  by (simp add: saveState_def emit_def Let_def split: option.splits)

lemma slot_in_range_saveState:
  assumes "slot_in_range sm"
  shows "slot_in_range (snd (saveState csave io sm slot0))"
proof -
  have "0 \<le> used_slot sm slot0 + 1"
    using assms used_slot_nonneg [of sm slot0] by (simp add: slot_in_range_def)
  then have "0 \<le> c_rem (used_slot sm slot0 + 1) 10 \<and> c_rem (used_slot sm slot0 + 1) 10 < 10"
    by (rule c_rem_10_range)
  with assms myCurrentSlot_saveState [of csave io sm slot0] show ?thesis
    by (auto simp: slot_in_range_def)
qed

lemma loadState_open:
  assumes "hasConsole (myOSystem sm)" and "myConsole (myOSystem sm) = Some c"
    and "open_in (state_file (myOSystem sm) c (used_slot sm arg)) = Some ins"
    and "load_try cload ins c (used_slot sm arg) = (called, msg, m')"
  shows "loadState cload open_in sm arg =
      emit (ShowMessage msg)
        (if called
         then emit ConsoleLoad
                (set_machine c m' (emit (OpenRead (state_file (myOSystem sm) c (used_slot sm arg))) sm))
         else emit (OpenRead (state_file (myOSystem sm) c (used_slot sm arg))) sm)"
  using assms by (simp add: loadState_def Let_def)



lemma load_try_throws:
  "cload body (machine c) = LoadThrows m' \<Longrightarrow>
   load_try cload (STATE_HEADER # cartridge_name c # body) c slot =
     (True, ''Invalid data in state '' @ show_int slot @ '' file'', m')"
  by (simp add: load_try_def)

lemma set_machine_same:
  "myConsole (myOSystem sm) = Some c \<Longrightarrow> calls (set_machine c (machine c) sm) = calls sm \<and> 
     set_machine c (machine c) sm = sm"
  by (simp add: set_machine_def)

text \<open>
  Without a snapshot of its own, \<open>loadState\<close> leaves in the console the machine that
  \<^verbatim>\<open>Console::load\<close> left when it threw.
\<close>

lemma loadState_machine_after_throw:
  assumes "hasConsole (myOSystem sm)" and "myConsole (myOSystem sm) = Some c"
    and "open_in (state_file (myOSystem sm) c (used_slot sm arg))
           = Some (STATE_HEADER # cartridge_name c # body)"
    and "cload body (machine c) = LoadThrows m'"
  shows "myConsole (myOSystem (loadState cload open_in sm arg)) = Some (c\<lparr>machine := m'\<rparr>)"
proof -
  from assms(4)
  have "load_try cload (STATE_HEADER # cartridge_name c # body) c (used_slot sm arg) =
      (True, ''Invalid data in state '' @ show_int (used_slot sm arg) @ '' file'', m')"
    by (rule load_try_throws)
  from loadState_open [where open_in = open_in and arg = arg and cload = cload,
      OF assms(1) assms(2) assms(3) this]
  show ?thesis
    by (simp add: emit_def set_machine_def)
qed





section \<open>Properties of the scheduler\<close>

text \<open>
  C2. In an iteration that is not left by \<^verbatim>\<open>break\<close> or by an exception, after the
  virtual time has been advanced by the timeslice: when the wall-clock reading \<open>now\<close>
  exceeds the virtual time by more than \<open>maxLag\<close>, the iteration ends with the virtual
  time equal to \<open>now\<close>, without sleeping. \<open>maxLag\<close> is
  \<open>cyclesPerFrame / cyclesPerSecond\<close> with a console and 0 without one.
\<close>

theorem C2_resync:
  assumes "\<not> quit_loop inp"
    and "timesliceSeconds ops dbg inp = Inr ts"
    and "d_gt ops (of_ticks ops (now_after inp - virtualTime_advanced ops inp virtualTime ts))
           (maxLag ops (loop_console inp))"
  shows "mainLoop_iteration ops dbg inp virtualTime = Next (now_after inp) False
     \<and> maxLag ops (None :: 'm Console option) = d_of_int ops 0
     \<and> maxLag ops (Some c) =
         d_div ops (d_of_int ops (uint (cyclesPerFrame (emulationTiming c))))
           (d_of_int ops (uint (cyclesPerSecond (emulationTiming c))))"
  using assms by (simp add: mainLoop_iteration_def maxLag_def Let_def)

text \<open>
  In the launcher, one second after the last iteration: the virtual time 0 is advanced
  by 1/60 s and then set to the wall-clock reading.
\<close>

lemma ts_ui: "timesliceSeconds exact_ops dbg ui_input = Inr (1 / 60)"
  by (simp add: timesliceSeconds_def ui_input_def exact_ops_def)

lemma adv_ui: "virtualTime_advanced exact_ops ui_input 0 (1 / 60) = 16666666"
  by (simp add: virtualTime_advanced_def ui_input_def exact_ops_def floor_eq_iff)

theorem C2_witness:
  "mainLoop_iteration exact_ops True ui_input 0 = Next 1000000000 False
   \<and> maxLag exact_ops (Some demo_console) = 19912 / 1193191"
proof -
  have q: "\<not> quit_loop ui_input"
    by (simp add: ui_input_def)
  have lag: "d_gt exact_ops
      (of_ticks exact_ops (now_after ui_input - virtualTime_advanced exact_ops ui_input 0 (1 / 60)))
      (maxLag exact_ops (loop_console ui_input))"
    by (simp add: adv_ui) (simp add: ui_input_def exact_ops_def maxLag_def)
  note t = C2_resync [OF q ts_ui [of True] lag, where c = demo_console]
  have n: "now_after ui_input = 1000000000"
    by (simp add: ui_input_def)
  have m: "d_div exact_ops (d_of_int exact_ops (uint (cyclesPerFrame (emulationTiming demo_console))))
           (d_of_int exact_ops (uint (cyclesPerSecond (emulationTiming demo_console)))) = 19912 / 1193191"
    by (simp add: exact_ops_def demo_console_def ntsc_timing_def)
  have a: "mainLoop_iteration exact_ops True ui_input 0 = Next 1000000000 False"
    using t [THEN conjunct1] by (simp only: n)
  have b: "maxLag exact_ops (Some demo_console) = 19912 / 1193191"
    using t [THEN conjunct2, THEN conjunct2] by (simp only: m)
  from a b show ?thesis by (rule conjI)
qed


lemma dispatch_returns:
  "result_status run \<noteq> invalid \<Longrightarrow>
   snd (dispatchEmulation ops dbg (Some c) run frying) =
     Inr (d_div ops (d_of_int ops (uint (totalCycles run)))
            (d_of_int ops (uint (cyclesPerSecond (emulationTiming c)))))"
  by (simp add: dispatchEmulation_def Let_def)

lemma uint_times_76:
  fixes w :: "32 word"
  assumes "uint w * 76 < 2 ^ 32"
  shows "uint (w * 76) = uint w * 76"
proof -
  have "uint (w * 76) = (uint w * 76) mod 2 ^ 32"
    by (simp add: uint_word_ariths)
  also have "\<dots> = uint w * 76"
    using assms by (simp add: mod_pos_pos_trivial)
  finally show ?thesis .
qed

text \<open>
  Otherwise the advanced virtual time stands, and the thread sleeps exactly when it is
  ahead of the wall clock.
\<close>

lemma mainLoop_keeps_pace:
  assumes "\<not> quit_loop inp"
    and "timesliceSeconds ops dbg inp = Inr ts"
    and "\<not> d_gt ops (of_ticks ops (now_after inp - virtualTime_advanced ops inp virtualTime ts))
           (maxLag ops (loop_console inp))"
  shows "mainLoop_iteration ops dbg inp virtualTime =
           Next (virtualTime_advanced ops inp virtualTime ts)
             (now_after inp < virtualTime_advanced ops inp virtualTime ts)"
  using assms by (simp add: mainLoop_iteration_def Let_def)

text \<open>
  C7. The timeslice by the state of the event handler: in EMULATION with a console it is
  the cycle count returned by the worker divided by \<open>cyclesPerSecond\<close> (and 0 without a
  console, where nothing runs); in PLAYBACK it is \<open>scanlinesLastFrame * 76\<close> divided by
  \<open>cyclesPerSecond\<close>, the product taken on 32-bit words, which is the exact product
  below 2^32; in every other state it is 1 divided by 60. The virtual time advances by
  the timeslice converted to clock ticks.
\<close>

theorem C7_timeslice_by_mode:
  "(state_polled inp = EMULATION \<and> loop_console inp = Some c
      \<and> result_status (loop_run inp) \<noteq> invalid \<longrightarrow>
      timesliceSeconds ops dbg inp =
        Inr (d_div ops (d_of_int ops (uint (totalCycles (loop_run inp))))
               (d_of_int ops (uint (cyclesPerSecond (emulationTiming c))))))
   \<and> (state_polled inp = EMULATION \<and> loop_console inp = None \<longrightarrow>
      timesliceSeconds ops dbg inp = Inr (d_of_int ops 0))
   \<and> (state_polled inp = PLAYBACK \<and> loop_console inp = Some c \<longrightarrow>
      timesliceSeconds ops dbg inp =
        Inr (d_div ops (d_of_int ops (uint (tia_scanlinesLastFrame c * 76)))
               (d_of_int ops (uint (cyclesPerSecond (emulationTiming c)))))
      \<and> (uint (tia_scanlinesLastFrame c) * 76 < 2 ^ 32 \<longrightarrow>
           uint (tia_scanlinesLastFrame c * 76) = uint (tia_scanlinesLastFrame c) * 76))
   \<and> (state_polled inp \<noteq> EMULATION \<and> state_polled inp \<noteq> PLAYBACK \<longrightarrow>
      timesliceSeconds ops dbg inp = Inr (d_div ops (d_of_int ops 1) (d_of_int ops 60)))
   \<and> virtualTime_advanced ops inp virtualTime ts =
       (if state_before inp \<noteq> EMULATION \<and> state_polled inp = EMULATION then now_on_entry inp
        else virtualTime) + to_ticks ops ts"
proof (intro conjI impI)
  assume "state_polled inp = EMULATION \<and> loop_console inp = Some c
      \<and> result_status (loop_run inp) \<noteq> invalid"
  then show "timesliceSeconds ops dbg inp =
        Inr (d_div ops (d_of_int ops (uint (totalCycles (loop_run inp))))
               (d_of_int ops (uint (cyclesPerSecond (emulationTiming c)))))"
    by (simp add: timesliceSeconds_def dispatch_returns)
next
  assume "state_polled inp = EMULATION \<and> loop_console inp = None"
  then show "timesliceSeconds ops dbg inp = Inr (d_of_int ops 0)"
    by (simp add: timesliceSeconds_def dispatchEmulation_def)
next
  assume "state_polled inp = PLAYBACK \<and> loop_console inp = Some c"
  then show "timesliceSeconds ops dbg inp =
        Inr (d_div ops (d_of_int ops (uint (tia_scanlinesLastFrame c * 76)))
               (d_of_int ops (uint (cyclesPerSecond (emulationTiming c)))))"
    by (simp add: timesliceSeconds_def)
next
  assume "uint (tia_scanlinesLastFrame c) * 76 < 2 ^ 32"
  then show "uint (tia_scanlinesLastFrame c * 76) = uint (tia_scanlinesLastFrame c) * 76"
    by (rule uint_times_76)
next
  assume "state_polled inp \<noteq> EMULATION \<and> state_polled inp \<noteq> PLAYBACK"
  then show "timesliceSeconds ops dbg inp = Inr (d_div ops (d_of_int ops 1) (d_of_int ops 60))"
    by (simp add: timesliceSeconds_def)
next
  show "virtualTime_advanced ops inp virtualTime ts =
       (if state_before inp \<noteq> EMULATION \<and> state_polled inp = EMULATION then now_on_entry inp
        else virtualTime) + to_ticks ops ts"
    by (simp add: virtualTime_advanced_def)
qed

text \<open>Emulation, emulation without a console, playback and the launcher, in exact arithmetic.\<close>

theorem C7_witness:
  "timesliceSeconds exact_ops True emulation_input = Inr (19912 / 1193191)
   \<and> timesliceSeconds exact_ops True (emulation_input\<lparr>loop_console := None\<rparr>) = Inr 0
   \<and> timesliceSeconds exact_ops True playback_input = Inr (19912 / 1193191)
   \<and> timesliceSeconds exact_ops True ui_input = Inr (1 / 60)"
proof -
  have e: "state_polled emulation_input = EMULATION \<and> loop_console emulation_input = Some demo_console
      \<and> result_status (loop_run emulation_input) \<noteq> invalid"
    by (simp add: emulation_input_def)
  have n: "state_polled (emulation_input\<lparr>loop_console := None\<rparr>) = EMULATION
      \<and> loop_console (emulation_input\<lparr>loop_console := None\<rparr>) = None"
    by (simp add: emulation_input_def)
  have p: "state_polled playback_input = PLAYBACK \<and> loop_console playback_input = Some demo_console"
    by (simp add: playback_input_def emulation_input_def)
  have w: "uint (tia_scanlinesLastFrame demo_console) * 76 < 2 ^ 32"
    by (simp add: demo_console_def)
  have u: "state_polled ui_input \<noteq> EMULATION \<and> state_polled ui_input \<noteq> PLAYBACK"
    by (simp add: ui_input_def)
  note te = C7_timeslice_by_mode [where ops = exact_ops and dbg = True and inp = emulation_input
      and c = demo_console, THEN conjunct1, THEN mp, OF e]
  note tn = C7_timeslice_by_mode [where ops = exact_ops and dbg = True
      and inp = "emulation_input\<lparr>loop_console := None\<rparr>",
      THEN conjunct2, THEN conjunct1, THEN mp, OF n]
  note tp = C7_timeslice_by_mode [where ops = exact_ops and dbg = True and inp = playback_input
      and c = demo_console, THEN conjunct2, THEN conjunct2, THEN conjunct1, THEN mp, OF p]
  note tu = C7_timeslice_by_mode [where ops = exact_ops and dbg = True and inp = ui_input,
      THEN conjunct2, THEN conjunct2, THEN conjunct2, THEN conjunct1, THEN mp, OF u]
  have a: "timesliceSeconds exact_ops True emulation_input = Inr (19912 / 1193191)"
    using te by (simp add: exact_ops_def emulation_input_def demo_console_def ntsc_timing_def)
  have b: "timesliceSeconds exact_ops True (emulation_input\<lparr>loop_console := None\<rparr>) = Inr 0"
    using tn by (simp add: exact_ops_def)
  have pw: "uint (tia_scanlinesLastFrame demo_console * 76) = 19912"
    using tp [THEN conjunct2, THEN mp, OF w] by (simp add: demo_console_def)
  have c: "timesliceSeconds exact_ops True playback_input = Inr (19912 / 1193191)"
    using tp [THEN conjunct1] pw by (simp add: exact_ops_def demo_console_def ntsc_timing_def)
  have d: "timesliceSeconds exact_ops True ui_input = Inr (1 / 60)"
    using tu by (simp add: exact_ops_def)
  from a b c d show ?thesis by simp
qed










end
